theory Spec2Isabelle
  imports Main
begin

section \<open>Strings of the source language\<close>

text \<open>
  A Python \<open>str\<close> is a sequence of code points. The model uses \<^typ>\<open>string\<close>, so it
  covers the code points 0..255; on these the character classes below are the ones
  CPython's \<open>str.isspace\<close>, \<open>str.isalpha\<close> and \<open>str.isnumeric\<close> compute.
\<close>

definition ord :: "char \<Rightarrow> nat" where
  "ord c = of_char c"

definition NL :: char where
  "NL = CHR 0x0A"

text \<open>\<open>c.isspace()\<close>: TAB..CR, FS..US, space, NEL and the no-break space.\<close>

definition isspace :: "char \<Rightarrow> bool" where
  "isspace c =
     (let n = ord c in (9 \<le> n \<and> n \<le> 13) \<or> (28 \<le> n \<and> n \<le> 32) \<or> n = 133 \<or> n = 160)"

text \<open>\<open>c.isalpha()\<close>: the letters of ASCII and of Latin-1 (general category L).\<close>

definition isalpha :: "char \<Rightarrow> bool" where
  "isalpha c =
     (let n = ord c in
        (65 \<le> n \<and> n \<le> 90) \<or> (97 \<le> n \<and> n \<le> 122) \<or> n = 170 \<or> n = 181 \<or> n = 186 \<or>
        (192 \<le> n \<and> n \<le> 214) \<or> (216 \<le> n \<and> n \<le> 246) \<or> (248 \<le> n \<and> n \<le> 255))"

text \<open>\<open>c.isnumeric()\<close>: the digits, the superscripts 1, 2, 3 and the three vulgar fractions.\<close>

definition isnumeric :: "char \<Rightarrow> bool" where
  "isnumeric c =
     (let n = ord c in
        (48 \<le> n \<and> n \<le> 57) \<or> n = 178 \<or> n = 179 \<or> n = 185 \<or> (188 \<le> n \<and> n \<le> 190))"

text \<open>\<open>string.punctuation\<close>: the 32 ASCII punctuation characters, in the library's order.\<close>

definition punctuation :: string where
  "punctuation =
     [CHR 0x21, CHR 0x22, CHR 0x23, CHR 0x24, CHR 0x25, CHR 0x26, CHR 0x27, CHR 0x28,
      CHR 0x29, CHR 0x2A, CHR 0x2B, CHR 0x2C, CHR 0x2D, CHR 0x2E, CHR 0x2F, CHR 0x3A,
      CHR 0x3B, CHR 0x3C, CHR 0x3D, CHR 0x3E, CHR 0x3F, CHR 0x40, CHR 0x5B, CHR 0x5C,
      CHR 0x5D, CHR 0x5E, CHR 0x5F, CHR 0x60, CHR 0x7B, CHR 0x7C, CHR 0x7D, CHR 0x7E]"

text \<open>\<open>key in s\<close> for strings: \<open>key\<close> occurs in \<open>s\<close> as a contiguous substring.\<close>

fun str_in :: "string \<Rightarrow> string \<Rightarrow> bool" where
  "str_in key [] = (key = [])"
| "str_in key (c # cs) = (take (length key) (c # cs) = key \<or> str_in key cs)"

text \<open>
  \<open>s.replace(old, new)\<close>: the non-overlapping occurrences of \<open>old\<close>, found from the left,
  are replaced. For an empty \<open>old\<close> Python puts \<open>new\<close> before every character and at the end.
\<close>

function str_replace :: "string \<Rightarrow> string \<Rightarrow> string \<Rightarrow> string" where
  "str_replace old new s =
     (if old = [] then new @ concat (map (\<lambda>c. c # new) s)
      else if s = [] then []
      else if take (length old) s = old then new @ str_replace old new (drop (length old) s)
      else hd s # str_replace old new (tl s))"
  by pat_completeness auto
termination
  by (relation "measure (\<lambda>(old, new, s). length s)") (auto simp: neq_Nil_conv)

declare str_replace.simps [simp del]

text \<open>\<open>s.strip()\<close>: leading and trailing whitespace removed.\<close>

definition str_strip :: "string \<Rightarrow> string" where
  "str_strip s = rev (dropWhile isspace (rev (dropWhile isspace s)))"

text \<open>\<open>s.split(sep)\<close> for a one-character separator; the result is never empty.\<close>

fun str_split :: "char \<Rightarrow> string \<Rightarrow> string list" where
  "str_split sep [] = [[]]"
| "str_split sep (c # cs) =
     (if c = sep then [] # str_split sep cs
      else (case str_split sep cs of [] \<Rightarrow> [[c]] | x # xs \<Rightarrow> (c # x) # xs))"

text \<open>\<open>sep.join(xs)\<close> for a list of strings.\<close>

fun str_join :: "string \<Rightarrow> string list \<Rightarrow> string" where
  "str_join sep [] = []"
| "str_join sep [x] = x"
| "str_join sep (x # y # ys) = x @ sep @ str_join sep (y # ys)"

text \<open>\<open>str(n)\<close> for an integer, as an f-string renders it: decimal, with a sign if negative.\<close>

fun digits10 :: "nat \<Rightarrow> string" where
  "digits10 n =
     (if n < 10 then [''0123456789'' ! n]
      else digits10 (n div 10) @ [''0123456789'' ! (n mod 10)])"

declare digits10.simps [simp del]

definition str_int :: "int \<Rightarrow> string" where
  "str_int i = (if i < 0 then CHR ''-'' # digits10 (nat (- i)) else digits10 (nat i))"

section \<open>Configuration constants\<close>

text \<open>
  The class attributes of \<open>AflowAPI\<close> are bound to constants of \<open>src.utils.constants\<close>, a
  module that is not part of the sources at hand; their values are parameters here.
  \<open>API_KEYWORDS\<close> is a list in the order in which the source iterates over it, and
  \<open>API_OPERATORS\<close> the collection of operator strings that \<open>c in self.API_OPERATORS\<close> tests a
  one-character string against.
\<close>

record config =
  SERVER :: string
  API :: string
  API_KEYWORDS :: "string list"
  API_OPERATORS :: "string list"
  DEFAULT_PAGING :: int


section \<open>Query validation\<close>

text \<open>
  The loop of \<open>_is_query_valid\<close> over the keywords: each keyword that occurs in what is left
  of the alphabetic characters is replaced by the empty string, one keyword after the other.
\<close>

definition remove_keywords :: "string list \<Rightarrow> string \<Rightarrow> string" where
  "remove_keywords keys query_keywords =
     foldl (\<lambda>qk key. if str_in key qk then str_replace key [] qk else qk) query_keywords keys"

definition is_query_valid :: "config \<Rightarrow> string \<Rightarrow> bool" where
  "is_query_valid cfg query =
     (let check_spaces = list_ex isspace query;
          query_operators = filter (\<lambda>c. c \<in> set punctuation) query;
          check_operators = list_all (\<lambda>c. [c] \<in> set (API_OPERATORS cfg)) query_operators;
          query_keywords = remove_keywords (API_KEYWORDS cfg) (filter isalpha query);
          check_keywords = (length query_keywords = 0)
      in check_spaces \<and> check_operators \<and> check_keywords)"

subsection \<open>The third check in words\<close>

text \<open>
  The third check described without the source's loop: the keywords are taken in their
  order, once each; a keyword's occurrences in what is left are deleted scanning from the
  left, the scan going on behind each deleted occurrence; an empty keyword deletes nothing.
\<close>

fun delete_occurrences :: "string \<Rightarrow> string \<Rightarrow> string" where
  "delete_occurrences key [] = []"
| "delete_occurrences key (c # cs) =
     (if key \<noteq> [] \<and> take (length key) (c # cs) = key
      then delete_occurrences key (drop (length key) (c # cs))
      else c # delete_occurrences key cs)"

primrec remove_in_turn :: "string list \<Rightarrow> string \<Rightarrow> string" where
  "remove_in_turn [] s = s"
| "remove_in_turn (key # keys) s = remove_in_turn keys (delete_occurrences key s)"

section \<open>Values, errors and the world outside\<close>

text \<open>
  What \<open>response.json()\<close> returns, and what the caller's entries hold: JSON values. The pairs
  of an object are in the order of the dictionary's keys. Floating-point numbers are not
  represented; no operation of the client reads a number.
\<close>

datatype json =
    JNull
  | JBool bool
  | JNum int
  | JStr string
  | JArr "json list"
  | JObj "(string \<times> json) list"

text \<open>An entry is a dictionary from field names to values.\<close>

type_synonym entry = "string \<Rightarrow> json option"

text \<open>
  The exceptions that leave the client, by class; their messages are not modelled.
  \<open>RequestException\<close> stands for whatever \<open>session.get\<close> itself raises.
\<close>

datatype error =
    ValueError
  | RuntimeError
  | RequestException
  | AttributeError
  | KeyError
  | IndexError
  | TypeError

definition and_then :: "error + 'a \<Rightarrow> ('a \<Rightarrow> error + 'b) \<Rightarrow> error + 'b" where
  "and_then r f = (case r of Inl err \<Rightarrow> Inl err | Inr x \<Rightarrow> f x)"

record response =
  status_code :: nat
  response_text :: string

text \<open>
  The libraries the client calls: \<open>http_get\<close> is \<open>session.get\<close> with its retries (\<open>None\<close> when it
  raises), \<open>json_decode\<close> is \<open>response.json()\<close> (\<open>None\<close> when the body is not JSON), and
  \<open>format_value\<close> is the conversion an f-string applies to a value that is not a string.
\<close>

record env =
  http_get :: "string \<Rightarrow> response option"
  json_decode :: "string \<Rightarrow> json option"
  format_value :: "json \<Rightarrow> string"

text \<open>
  The mutable state: the URLs the session has sent a GET to, in order; the strings printed;
  and the store of the caller's dictionaries, which Python passes by reference.
\<close>

record state =
  gets :: "string list"
  stdout :: "string list"
  heap :: "nat \<Rightarrow> entry"

definition print_line :: "state \<Rightarrow> string \<Rightarrow> state" where
  "print_line st s = st\<lparr>stdout := stdout st @ [s]\<rparr>"

text \<open>\<open>v[key]\<close> with a string key.\<close>

definition getitem :: "json \<Rightarrow> string \<Rightarrow> error + json" where
  "getitem v key =
     (case v of
        JObj kvs \<Rightarrow> (case map_of kvs key of None \<Rightarrow> Inl KeyError | Some x \<Rightarrow> Inr x)
      | _ \<Rightarrow> Inl TypeError)"

fun strings_of :: "json list \<Rightarrow> string list option" where
  "strings_of [] = Some []"
| "strings_of (JStr s # vs) = (case strings_of vs of None \<Rightarrow> None | Some ss \<Rightarrow> Some (s # ss))"
| "strings_of (_ # vs) = None"

text \<open>
  \<open>sep.join(v)\<close>: a list must hold strings only; a string is joined character by character,
  a dictionary key by key; anything else is not iterable.
\<close>

definition join_json :: "string \<Rightarrow> json \<Rightarrow> error + string" where
  "join_json sep v =
     (case v of
        JStr s \<Rightarrow> Inr (str_join sep (map (\<lambda>c. [c]) s))
      | JArr xs \<Rightarrow> (case strings_of xs of None \<Rightarrow> Inl TypeError | Some ss \<Rightarrow> Inr (str_join sep ss))
      | JObj kvs \<Rightarrow> Inr (str_join sep (map fst kvs))
      | _ \<Rightarrow> Inl TypeError)"

definition fmt :: "env \<Rightarrow> json \<Rightarrow> string" where
  "fmt env v = (case v of JStr s \<Rightarrow> s | _ \<Rightarrow> format_value env v)"

section \<open>The request client\<close>

text \<open>
  \<open>_make_request\<close>: one GET; \<open>raise_for_status\<close> raises for the status codes 400..599, which
  the method turns into a \<open>RuntimeError\<close>.
\<close>

definition make_request :: "env \<Rightarrow> state \<Rightarrow> string \<Rightarrow> state \<times> (error + response)" where
  "make_request env st url =
     (let st1 = st\<lparr>gets := gets st @ [url]\<rparr> in
      case http_get env url of
        None \<Rightarrow> (st1, Inl RequestException)
      | Some response \<Rightarrow>
          if 400 \<le> status_code response \<and> status_code response < 600
          then (st1, Inl RuntimeError)
          else (st1, Inr response))"

definition base_url :: "config \<Rightarrow> string" where
  "base_url cfg = SERVER cfg @ API cfg"

text \<open>\<open>paging or self.DEFAULT_PAGING\<close>: the left operand unless it is \<open>None\<close> or zero.\<close>

definition or_default :: "int option \<Rightarrow> int \<Rightarrow> int" where
  "or_default x d = (case x of None \<Rightarrow> d | Some v \<Rightarrow> if v = 0 then d else v)"

text \<open>Lines 117 to 125 of \<open>request\<close>: the URL that is sent.\<close>

definition request_url :: "config \<Rightarrow> string \<Rightarrow> int option \<Rightarrow> int option \<Rightarrow> bool \<Rightarrow> string" where
  "request_url cfg matchbook paging chunk_size no_directives =
     (let paging1 = or_default paging (DEFAULT_PAGING cfg);
          paging_str =
            (case chunk_size of
               Some c \<Rightarrow> ''$paging('' @ str_int paging1 @ '','' @ str_int c @ '')''
             | None \<Rightarrow> ''$paging('' @ str_int paging1 @ '')'');
          url = base_url cfg @ matchbook
      in if \<not> no_directives then url @ paging_str @ ''format(json)'' else url)"

definition request ::
  "config \<Rightarrow> env \<Rightarrow> state \<Rightarrow> string \<Rightarrow> int option \<Rightarrow> int option \<Rightarrow> bool \<Rightarrow> state \<times> (error + json)"
where
  "request cfg env st matchbook paging chunk_size no_directives =
     (if (case chunk_size of None \<Rightarrow> False | Some c \<Rightarrow> c < 1) then (st, Inl ValueError)
      else if (case paging of None \<Rightarrow> False | Some p \<Rightarrow> p < 0) then (st, Inl ValueError)
      else if \<not> is_query_valid cfg matchbook then (st, Inl ValueError)
      else
        (case make_request env st (request_url cfg matchbook paging chunk_size no_directives) of
           (st1, Inl err) \<Rightarrow> (st1, Inl err)
         | (st1, Inr response) \<Rightarrow>
             (case json_decode env (response_text response) of
                None \<Rightarrow> (st1, Inl RuntimeError)
              | Some json_response \<Rightarrow> (st1, Inr json_response))))"

text \<open>
  Attribute lookup on an \<open>AflowAPI\<close> object. The class body and \<open>__init__\<close> bind the names
  below and nothing else, and the class has no \<open>__getattr__\<close>; of these names only \<open>request\<close>
  is a method that takes a matchbook and the paging arguments.
\<close>

definition AflowAPI_names :: "string list" where
  "AflowAPI_names =
     [''SERVER'', ''API'', ''PROTOCOLS'', ''STATUS_FORCELIST'', ''API_KEYWORDS'',
      ''API_OPERATORS'', ''DEFAULT_PAGING'', ''__init__'', ''__enter__'', ''__exit__'',
      ''_create_session'', ''_make_request'', ''_is_query_valid'', ''base_url'', ''request'',
      ''help'', ''get_contcar'', ''get_property'', ''max_retries'', ''session'']"

datatype attribute =
    Query_method
      "config \<Rightarrow> env \<Rightarrow> state \<Rightarrow> string \<Rightarrow> int option \<Rightarrow> int option \<Rightarrow> bool \<Rightarrow> state \<times> (error + json)"
  | Other_attribute

definition getattr :: "string \<Rightarrow> attribute option" where
  "getattr name =
     (if name = ''request'' then Some (Query_method request)
      else if name \<in> set AflowAPI_names then Some Other_attribute
      else None)"

text \<open>The help block that \<open>help\<close> builds from the response for a keyword.\<close>

definition format_help :: "env \<Rightarrow> string \<Rightarrow> json \<Rightarrow> error + string" where
  "format_help env keyword help_data =
     and_then (getitem help_data keyword) (\<lambda>entry.
     and_then (getitem entry ''description'') (\<lambda>description.
     and_then (getitem entry ''units'') (\<lambda>units.
     and_then (getitem entry ''status'') (\<lambda>status.
     and_then (getitem entry ''__comment__'') (\<lambda>comment_lines.
     and_then (join_json (NL # ''    '') comment_lines) (\<lambda>joined.
       (let help_str =
              keyword @ '':'' @ [NL] @
              ''  description: '' @ fmt env description @ [NL] @
              ''  units: '' @ fmt env units @ [NL] @
              ''  status: '' @ fmt env status @ [NL];
            comment = str_strip joined
        in Inr (if comment \<noteq> [] then help_str @ ''  comment:'' @ [NL] @ ''    '' @ comment
                else help_str))))))))"

text \<open>
  \<open>help\<close>. Both branches call \<open>self.aflux_request\<close>. In the keyword branch the call stands in
  a \<open>try\<close> whose handler catches \<open>RuntimeError\<close> only, so an error of another class raised
  by the lookup or by the call passes through.
\<close>

definition help_op :: "config \<Rightarrow> env \<Rightarrow> state \<Rightarrow> string option \<Rightarrow> state \<times> (error + unit)" where
  "help_op cfg env st keyword =
     (case keyword of
        None \<Rightarrow>
          (case getattr ''aflux_request'' of
             None \<Rightarrow> (st, Inl AttributeError)
           | Some Other_attribute \<Rightarrow> (st, Inl TypeError)
           | Some (Query_method aflux_request) \<Rightarrow>
               (case aflux_request cfg env st [] None None True of
                  (st1, Inl err) \<Rightarrow> (st1, Inl err)
                | (st1, Inr help_data) \<Rightarrow>
                    (case join_json [NL] help_data of
                       Inl err \<Rightarrow> (st1, Inl err)
                     | Inr help_str \<Rightarrow> (print_line st1 help_str, Inr ()))))
      | Some k \<Rightarrow>
          if \<not> is_query_valid cfg k then (st, Inl ValueError)
          else
            (case getattr ''aflux_request'' of
               None \<Rightarrow> (st, Inl AttributeError)
             | Some Other_attribute \<Rightarrow> (st, Inl TypeError)
             | Some (Query_method aflux_request) \<Rightarrow>
                 (case aflux_request cfg env st (''help('' @ k @ '')'') None None True of
                    (st1, Inl err) \<Rightarrow>
                      if err = RuntimeError
                      then (print_line st1 (''No help information found for keyword: '' @ k), Inr ())
                      else (st1, Inl err)
                  | (st1, Inr help_data) \<Rightarrow>
                      (case format_help env k help_data of
                         Inl err \<Rightarrow> (st1, Inl err)
                       | Inr help_str \<Rightarrow> (print_line st1 help_str, Inr ())))))"

text \<open>\<open>get_contcar\<close>; the entry is the dictionary at address \<open>e\<close>.\<close>

definition get_contcar :: "env \<Rightarrow> state \<Rightarrow> nat \<Rightarrow> state \<times> (error + string)" where
  "get_contcar env st e =
     (let entry = heap st e in
      case entry ''aurl'' of
        None \<Rightarrow> (st, Inl ValueError)
      | Some (JStr a) \<Rightarrow>
          (let aurl = str_replace '':'' ''/'' a;
               url = ''http://'' @ aurl @ ''/CONTCAR.relax''
           in case make_request env st url of
                (st1, Inl err) \<Rightarrow> (st1, Inl err)
              | (st1, Inr response) \<Rightarrow>
                  (let poscar_lines = str_split NL (response_text response) in
                   if length poscar_lines \<le> 5 then (st1, Inl IndexError)
                   else if str_strip (poscar_lines ! 5) = [] then (st1, Inl IndexError)
                   else if isnumeric (hd (str_strip (poscar_lines ! 5))) then
                     (case entry ''species'' of
                        None \<Rightarrow> (st1, Inl KeyError)
                      | Some species \<Rightarrow>
                          (case join_json '' '' species of
                             Inl err \<Rightarrow> (st1, Inl err)
                           | Inr species_line \<Rightarrow>
                               (st1, Inr (str_join [NL]
                                  (take 5 poscar_lines @ species_line # drop 5 poscar_lines)))))
                   else (st1, Inr (str_join [NL] poscar_lines))))
      | Some _ \<Rightarrow> (st, Inl AttributeError))"

text \<open>
  \<open>get_property\<close>. The loop over \<open>property_value\<close> rebinds its own variable to the pieces of
  each element and stores nothing; \<open>last_value\<close> is that variable after the loop.
\<close>

definition get_property :: "env \<Rightarrow> state \<Rightarrow> nat \<Rightarrow> string \<Rightarrow> state \<times> (error + string list)" where
  "get_property env st e property =
     (let entry = heap st e in
      case entry ''aurl'' of
        None \<Rightarrow> (st, Inl ValueError)
      | Some (JStr a) \<Rightarrow>
          (let aurl = str_replace '':'' ''/'' a;
               url = ''http://'' @ aurl @ ''/?'' @ property
           in case make_request env st url of
                (st1, Inl err) \<Rightarrow> (st1, Inl err)
              | (st1, Inr response) \<Rightarrow>
                  (let property_value = str_split CHR '';'' (str_strip (response_text response));
                       last_value =
                         foldl (\<lambda>_ v. Some (str_split CHR '','' (str_strip v))) None property_value
                   in (st1, Inr property_value)))
      | Some _ \<Rightarrow> (st, Inl AttributeError))"

section \<open>Example values\<close>

text \<open>Concrete values on which the definitions are evaluated below.\<close>

definition example_config :: config where
  "example_config =
     \<lparr>SERVER = ''https://aflow.org'', API = ''/API/aflux/?'',
      API_KEYWORDS = [''species'', ''Egap''],
      API_OPERATORS = [''('', '')'', '','', '':'', ''*'', ''!'', ''$''],
      DEFAULT_PAGING = 0\<rparr>"

definition example_env :: "nat \<Rightarrow> string \<Rightarrow> env" where
  "example_env code body =
     \<lparr>http_get = (\<lambda>url. Some \<lparr>status_code = code, response_text = body\<rparr>),
      json_decode = (\<lambda>s. None),
      format_value = (\<lambda>v. [])\<rparr>"

definition example_state :: "entry \<Rightarrow> state" where
  "example_state entry = \<lparr>gets = [], stdout = [], heap = (\<lambda>e. entry)\<rparr>"

section \<open>Auxiliary facts\<close>

subsection \<open>Replacement and the removal of keywords\<close>

lemma concat_singletons: "concat (map (\<lambda>c. [c]) s) = s"
  by (induction s) simp_all

lemma str_replace_empty_old: "str_replace [] new s = new @ concat (map (\<lambda>c. c # new) s)"
  by (simp add: str_replace.simps [of "[]" new s])

lemma str_replace_Nil: "old \<noteq> [] \<Longrightarrow> str_replace old new [] = []"
  by (simp add: str_replace.simps [of old new "[]"])

lemma str_replace_match:
  "old \<noteq> [] \<Longrightarrow> s \<noteq> [] \<Longrightarrow> take (length old) s = old \<Longrightarrow>
     str_replace old new s = new @ str_replace old new (drop (length old) s)"
  by (subst str_replace.simps) simp

lemma str_replace_skip:
  "old \<noteq> [] \<Longrightarrow> take (length old) (c # cs) \<noteq> old \<Longrightarrow>
     str_replace old new (c # cs) = c # str_replace old new cs"
  by (subst str_replace.simps) simp

lemma set_str_replace_gen: "new = [] \<Longrightarrow> set (str_replace old new s) \<subseteq> set s"
proof (induction old new s rule: str_replace.induct)
  case (1 old new s)
  note new = \<open>new = []\<close>
  show ?case
  proof (cases "old = []")
    case True
    with new show ?thesis by (simp add: str_replace_empty_old concat_singletons)
  next
    case False
    note nonempty = this
    show ?thesis
    proof (cases s)
      case Nil
      with nonempty show ?thesis by (simp add: str_replace_Nil)
    next
      case (Cons c cs)
      show ?thesis
      proof (cases "take (length old) s = old")
        case True
        with nonempty Cons new
        have "set (str_replace old new (drop (length old) s)) \<subseteq> set (drop (length old) s)"
          using "1.IH"(1) by simp
        moreover have "set (drop (length old) s) \<subseteq> set s" by (rule set_drop_subset)
        moreover have "str_replace old new s = str_replace old new (drop (length old) s)"
          using str_replace_match [of old s new] nonempty Cons True new by simp
        ultimately show ?thesis by simp
      next
        case False
        with nonempty Cons new have "set (str_replace old new cs) \<subseteq> set cs"
          using "1.IH"(2) by simp
        moreover have "str_replace old new s = c # str_replace old new cs"
          using str_replace_skip [of old c cs new] nonempty Cons False by simp
        ultimately show ?thesis using Cons by auto
      qed
    qed
  qed
qed

lemma set_str_replace_del: "set (str_replace old [] s) \<subseteq> set s"
  by (rule set_str_replace_gen) simp

lemma set_remove_keywords: "set (remove_keywords keys s) \<subseteq> set s"
proof (induction keys arbitrary: s)
  case Nil
  show ?case by (simp add: remove_keywords_def)
next
  case (Cons key keys)
  have step: "remove_keywords (key # keys) s =
      remove_keywords keys (if str_in key s then str_replace key [] s else s)"
    by (simp add: remove_keywords_def)
  have "set (if str_in key s then str_replace key [] s else s) \<subseteq> set s"
    using set_str_replace_del [of key s] by simp
  with Cons.IH [of "if str_in key s then str_replace key [] s else s"] show ?case
    unfolding step by blast
qed

lemma remove_keywords_Nil: "remove_keywords keys [] = []"
  using set_remove_keywords [of keys "[]"] by simp

lemma delete_occurrences_empty_key: "delete_occurrences [] s = s"
  by (induction s) simp_all

lemma delete_occurrences_absent: "\<not> str_in key s \<Longrightarrow> delete_occurrences key s = s"
  by (induction s) auto

lemma str_replace_delete_gen: "new = [] \<Longrightarrow> str_replace old new s = delete_occurrences old s"
proof (induction old new s rule: str_replace.induct)
  case (1 old new s)
  note new = \<open>new = []\<close>
  show ?case
  proof (cases "old = []")
    case True
    with new show ?thesis
      by (simp add: str_replace_empty_old concat_singletons delete_occurrences_empty_key)
  next
    case False
    note nonempty = this
    show ?thesis
    proof (cases s)
      case Nil
      with nonempty show ?thesis by (simp add: str_replace_Nil)
    next
      case (Cons c cs)
      show ?thesis
      proof (cases "take (length old) s = old")
        case True
        with nonempty Cons new
        have "str_replace old new (drop (length old) s) = delete_occurrences old (drop (length old) s)"
          using "1.IH"(1) by simp
        moreover have "str_replace old new s = str_replace old new (drop (length old) s)"
          using str_replace_match [of old s new] nonempty Cons True new by simp
        moreover have "delete_occurrences old s = delete_occurrences old (drop (length old) s)"
          using nonempty True unfolding Cons by simp
        ultimately show ?thesis by simp
      next
        case False
        with nonempty Cons new have "str_replace old new cs = delete_occurrences old cs"
          using "1.IH"(2) by simp
        moreover have "str_replace old new s = c # str_replace old new cs"
          using str_replace_skip [of old c cs new] nonempty Cons False by simp
        moreover have "delete_occurrences old s = c # delete_occurrences old cs"
          using False unfolding Cons by simp
        ultimately show ?thesis by simp
      qed
    qed
  qed
qed

lemma str_replace_delete: "str_replace key [] s = delete_occurrences key s"
  by (rule str_replace_delete_gen) simp

lemma remove_keywords_in_turn: "remove_keywords keys s = remove_in_turn keys s"
proof (induction keys arbitrary: s)
  case Nil
  show ?case by (simp add: remove_keywords_def)
next
  case (Cons key keys)
  have step: "remove_keywords (key # keys) s =
      remove_keywords keys (if str_in key s then str_replace key [] s else s)"
    by (simp add: remove_keywords_def)
  have "(if str_in key s then str_replace key [] s else s) = delete_occurrences key s"
    by (simp add: str_replace_delete delete_occurrences_absent)
  with Cons.IH show ?case unfolding step by simp
qed

subsection \<open>Splitting and joining\<close>

lemma str_split_not_Nil: "str_split sep s \<noteq> []"
  by (induction s) (simp_all split: list.split)

lemma str_join_Cons_head: "str_join sep ((c # x) # xs) = c # str_join sep (x # xs)"
  by (cases xs) simp_all

lemma str_join_split: "str_join [sep] (str_split sep s) = s"
proof (induction s)
  case Nil
  show ?case by simp
next
  case (Cons c cs)
  obtain x rest where r: "str_split sep cs = x # rest"
    using str_split_not_Nil [of sep cs] by (cases "str_split sep cs") auto
  show ?case
  proof (cases "c = sep")
    case True
    with Cons r show ?thesis by simp
  next
    case False
    have "str_join [sep] ((c # x) # rest) = c # str_join [sep] (x # rest)"
      by (rule str_join_Cons_head)
    with False Cons r show ?thesis by simp
  qed
qed

lemma str_split_no_sep: "x \<in> set (str_split sep s) \<Longrightarrow> sep \<notin> set x"
proof (induction s arbitrary: x)
  case Nil
  then show ?case by simp
next
  case (Cons c cs)
  obtain y rest where r: "str_split sep cs = y # rest"
    using str_split_not_Nil [of sep cs] by (cases "str_split sep cs") auto
  show ?case
  proof (cases "c = sep")
    case True
    with Cons.prems have "x = [] \<or> x \<in> set (str_split sep cs)" by simp
    with Cons.IH show ?thesis by auto
  next
    case False
    with Cons.prems r have "x = c # y \<or> x \<in> set rest" by simp
    moreover have "sep \<notin> set y" using Cons.IH [of y] r by simp
    moreover have "x \<in> set rest \<Longrightarrow> sep \<notin> set x" using Cons.IH [of x] r by simp
    ultimately show ?thesis using False by auto
  qed
qed

subsection \<open>Requests and the store of entries\<close>

lemma strings_of_JStr: "strings_of (map JStr ss) = Some ss"
  by (induction ss) simp_all

lemma make_request_ok:
  "http_get env url = Some r \<Longrightarrow> status_code r < 400 \<or> 600 \<le> status_code r \<Longrightarrow>
     make_request env st url = (st\<lparr>gets := gets st @ [url]\<rparr>, Inr r)"
  by (auto simp add: make_request_def)

lemma make_request_state: "fst (make_request env st url) = st\<lparr>gets := gets st @ [url]\<rparr>"
  by (simp add: make_request_def Let_def split: option.split)

lemma is_query_valid_space: "is_query_valid cfg '' ''"
  by (simp add: is_query_valid_def isspace_def isalpha_def ord_def punctuation_def remove_keywords_Nil)

lemma str_int_5: "str_int 5 = ''5''"
  by (simp add: str_int_def digits10.simps)

lemma request_valid:
  assumes "is_query_valid cfg matchbook"
      and "case chunk_size of None \<Rightarrow> True | Some c \<Rightarrow> 1 \<le> c"
      and "case paging of None \<Rightarrow> True | Some p \<Rightarrow> 0 \<le> p"
  shows "fst (request cfg env st matchbook paging chunk_size no_directives) =
           st\<lparr>gets := gets st @ [request_url cfg matchbook paging chunk_size no_directives]\<rparr>"
proof -
  let ?url = "request_url cfg matchbook paging chunk_size no_directives"
  have guards: "\<not> (case chunk_size of None \<Rightarrow> False | Some c \<Rightarrow> c < 1)"
               "\<not> (case paging of None \<Rightarrow> False | Some p \<Rightarrow> p < 0)"
    using assms(2,3) by (auto split: option.splits)
  obtain st1 r where mr: "make_request env st ?url = (st1, r)"
    by (cases "make_request env st ?url") auto
  then have st1: "st1 = st\<lparr>gets := gets st @ [?url]\<rparr>"
    using make_request_state [of env st ?url] by simp
  show ?thesis
    using guards assms(1) mr st1
    by (simp add: request_def split: sum.split option.split)
qed

lemma getattr_aflux_request: "getattr ''aflux_request'' = None"
  by (simp add: getattr_def AflowAPI_names_def)

lemma heap_make_request: "heap (fst (make_request env st url)) = heap st"
  by (simp add: make_request_state)

lemma heap_request: "heap (fst (request cfg env st matchbook paging chunk_size no_directives)) = heap st"
proof -
  let ?url = "request_url cfg matchbook paging chunk_size no_directives"
  obtain st1 r where mr: "make_request env st ?url = (st1, r)"
    by (cases "make_request env st ?url") auto
  then have "heap st1 = heap st"
    using heap_make_request [of env st ?url] by simp
  with mr show ?thesis
    by (simp add: request_def split: sum.split option.split)
qed

lemma heap_get_contcar: "heap (fst (get_contcar env st e)) = heap st"
proof (cases "heap st e ''aurl''")
  case None
  then show ?thesis by (simp add: get_contcar_def)
next
  case (Some v)
  show ?thesis
  proof (cases v)
    case (JStr a)
    let ?url = "''http://'' @ str_replace '':'' ''/'' a @ ''/CONTCAR.relax''"
    obtain st1 r where mr: "make_request env st ?url = (st1, r)"
      by (cases "make_request env st ?url") auto
    then have "heap st1 = heap st"
      using heap_make_request [of env st ?url] by simp
    with mr Some JStr show ?thesis
      by (simp add: get_contcar_def Let_def split: sum.split option.split)
  qed (use Some in \<open>simp_all add: get_contcar_def\<close>)
qed

lemma heap_get_property: "heap (fst (get_property env st e property)) = heap st"
proof (cases "heap st e ''aurl''")
  case None
  then show ?thesis by (simp add: get_property_def)
next
  case (Some v)
  show ?thesis
  proof (cases v)
    case (JStr a)
    let ?url = "''http://'' @ str_replace '':'' ''/'' a @ ''/?'' @ property"
    obtain st1 r where mr: "make_request env st ?url = (st1, r)"
      by (cases "make_request env st ?url") auto
    then have "heap st1 = heap st"
      using heap_make_request [of env st ?url] by simp
    with mr Some JStr show ?thesis
      by (simp add: get_property_def Let_def split: sum.split)
  qed (use Some in \<open>simp_all add: get_property_def\<close>)
qed

lemma heap_help_op: "heap (fst (help_op cfg env st keyword)) = heap st"
  by (cases keyword) (simp_all add: help_op_def getattr_aflux_request)

lemma get_property_ok:
  assumes "heap st e ''aurl'' = Some (JStr a)"
      and "http_get env (''http://'' @ str_replace '':'' ''/'' a @ ''/?'' @ property) = Some r"
      and "status_code r < 400 \<or> 600 \<le> status_code r"
  shows "get_property env st e property =
           (st\<lparr>gets := gets st @ [''http://'' @ str_replace '':'' ''/'' a @ ''/?'' @ property]\<rparr>,
            Inr (str_split CHR '';'' (str_strip (response_text r))))"
  using assms(1) make_request_ok [OF assms(2,3), of st]
  by (simp add: get_property_def Let_def)

lemma get_contcar_fetched:
  assumes "heap st e ''aurl'' = Some (JStr a)"
      and "http_get env (''http://'' @ str_replace '':'' ''/'' a @ ''/CONTCAR.relax'') = Some r"
      and "status_code r < 400 \<or> 600 \<le> status_code r"
  shows "snd (get_contcar env st e) =
     (let poscar_lines = str_split NL (response_text r) in
      if length poscar_lines \<le> 5 then Inl IndexError
      else if str_strip (poscar_lines ! 5) = [] then Inl IndexError
      else if isnumeric (hd (str_strip (poscar_lines ! 5))) then
        (case heap st e ''species'' of
           None \<Rightarrow> Inl KeyError
         | Some species \<Rightarrow>
             (case join_json '' '' species of
                Inl err \<Rightarrow> Inl err
              | Inr species_line \<Rightarrow>
                  Inr (str_join [NL] (take 5 poscar_lines @ species_line # drop 5 poscar_lines))))
      else Inr (str_join [NL] poscar_lines))"
  using assms(1) make_request_ok [OF assms(2,3), of st]
  by (simp add: get_contcar_def Let_def split: option.split sum.split)

section \<open>Query validation: the three checks\<close>

text \<open>
  C1, as stated, fails. The claim makes the third check a property of the keyword set. The
  source goes through the keywords once, in their order, so two orders of the same two
  keywords disagree on the query \<open>nspecies(*) \<close>: with \<open>species\<close> first its occurrence inside
  \<open>nspecies\<close> is deleted and an \<open>n\<close> is left, with \<open>nspecies\<close> first nothing is left. No
  check that reads only the keyword set and the query can stand in the third place.
\<close>

theorem is_query_valid_keyword_order_counterexample:
  "set (API_KEYWORDS (example_config\<lparr>API_KEYWORDS := [''species'', ''nspecies'']\<rparr>)) =
     set (API_KEYWORDS (example_config\<lparr>API_KEYWORDS := [''nspecies'', ''species'']\<rparr>)) \<and>
   API_OPERATORS (example_config\<lparr>API_KEYWORDS := [''species'', ''nspecies'']\<rparr>) =
     API_OPERATORS (example_config\<lparr>API_KEYWORDS := [''nspecies'', ''species'']\<rparr>) \<and>
   \<not> is_query_valid (example_config\<lparr>API_KEYWORDS := [''species'', ''nspecies'']\<rparr>) ''nspecies(*) '' \<and>
   is_query_valid (example_config\<lparr>API_KEYWORDS := [''nspecies'', ''species'']\<rparr>) ''nspecies(*) '' \<and>
   \<not> (\<exists>check3 :: string set \<Rightarrow> string \<Rightarrow> bool. \<forall>cfg q.
        is_query_valid cfg q \<longleftrightarrow>
          (\<exists>c \<in> set q. isspace c) \<and>
          (\<forall>c \<in> set q. c \<in> set punctuation \<longrightarrow> [c] \<in> set (API_OPERATORS cfg)) \<and>
          check3 (set (API_KEYWORDS cfg)) q)"
proof -
  let ?A = "example_config\<lparr>API_KEYWORDS := [''species'', ''nspecies'']\<rparr>"
  let ?B = "example_config\<lparr>API_KEYWORDS := [''nspecies'', ''species'']\<rparr>"
  let ?q = "''nspecies(*) ''"
  have sets: "set (API_KEYWORDS ?A) = set (API_KEYWORDS ?B)"
    by auto
  have ops: "API_OPERATORS ?A = API_OPERATORS ?B"
    by simp
  have A: "\<not> is_query_valid ?A ?q"
    by (simp add: is_query_valid_def remove_keywords_def isalpha_def ord_def str_replace.simps)
  have B: "is_query_valid ?B ?q"
    by (simp add: is_query_valid_def remove_keywords_def example_config_def punctuation_def
          isspace_def isalpha_def ord_def str_replace.simps)
  have "False" if all: "\<forall>cfg q.
        is_query_valid cfg q \<longleftrightarrow>
          (\<exists>c \<in> set q. isspace c) \<and>
          (\<forall>c \<in> set q. c \<in> set punctuation \<longrightarrow> [c] \<in> set (API_OPERATORS cfg)) \<and>
          check3 (set (API_KEYWORDS cfg)) q" for check3 :: "string set \<Rightarrow> string \<Rightarrow> bool"
  proof -
    from all have a: "is_query_valid ?A ?q \<longleftrightarrow>
          (\<exists>c \<in> set ?q. isspace c) \<and>
          (\<forall>c \<in> set ?q. c \<in> set punctuation \<longrightarrow> [c] \<in> set (API_OPERATORS ?A)) \<and>
          check3 (set (API_KEYWORDS ?A)) ?q"
      by blast
    from all have b: "is_query_valid ?B ?q \<longleftrightarrow>
          (\<exists>c \<in> set ?q. isspace c) \<and>
          (\<forall>c \<in> set ?q. c \<in> set punctuation \<longrightarrow> [c] \<in> set (API_OPERATORS ?B)) \<and>
          check3 (set (API_KEYWORDS ?B)) ?q"
      by blast
    from a b have "is_query_valid ?A ?q \<longleftrightarrow> is_query_valid ?B ?q"
      unfolding sets ops by blast
    with A B show False by blast
  qed
  then have "\<not> (\<exists>check3 :: string set \<Rightarrow> string \<Rightarrow> bool. \<forall>cfg q.
        is_query_valid cfg q \<longleftrightarrow>
          (\<exists>c \<in> set q. isspace c) \<and>
          (\<forall>c \<in> set q. c \<in> set punctuation \<longrightarrow> [c] \<in> set (API_OPERATORS cfg)) \<and>
          check3 (set (API_KEYWORDS cfg)) q)"
    by blast
  with sets ops A B show ?thesis by blast
qed

text \<open>
  C1, amended. A query is valid exactly when it contains a whitespace character, every
  punctuation character of it is one of the allowed operators, and one pass over the
  keywords in their order, deleting from what is left of the query's alphabetic characters
  the occurrences of each keyword in turn, from the left and without overlap, leaves
  nothing. The empty query is not valid.
\<close>

theorem is_query_valid_one_pass:
  "(is_query_valid cfg q \<longleftrightarrow>
      (\<exists>c \<in> set q. isspace c) \<and>
      (\<forall>c \<in> set q. c \<in> set punctuation \<longrightarrow> [c] \<in> set (API_OPERATORS cfg)) \<and>
      remove_in_turn (API_KEYWORDS cfg) (filter isalpha q) = []) \<and>
   \<not> is_query_valid cfg []"
proof -
  have "is_query_valid cfg q \<longleftrightarrow>
      (\<exists>c \<in> set q. isspace c) \<and>
      (\<forall>c \<in> set q. c \<in> set punctuation \<longrightarrow> [c] \<in> set (API_OPERATORS cfg)) \<and>
      remove_in_turn (API_KEYWORDS cfg) (filter isalpha q) = []"
    by (auto simp add: is_query_valid_def Let_def list_ex_iff list_all_iff remove_keywords_in_turn)
  moreover have "\<not> is_query_valid cfg []"
    by (simp add: is_query_valid_def)
  ultimately show ?thesis by simp
qed

theorem is_query_valid_one_pass_witness:
  "is_query_valid example_config ''Egap(*), species'' \<and>
   \<not> is_query_valid example_config ''Egap(*),species'' \<and>
   \<not> is_query_valid example_config ''Egap[*] species'' \<and>
   \<not> is_query_valid example_config ''species(Si) and whatever'' \<and>
   \<not> is_query_valid example_config ''speEgapcies ''"
proof -
  note one_pass = is_query_valid_one_pass [of example_config]
  have blank: "isspace CHR '' ''"
    by (simp add: isspace_def ord_def)
  have space: "\<exists>c \<in> set q. isspace c" if "CHR '' '' \<in> set q" for q
    using that blank by blast
  have valid: "is_query_valid example_config ''Egap(*), species''"
  proof -
    have "\<exists>c \<in> set ''Egap(*), species''. isspace c"
      by (rule space) simp
    moreover have "\<forall>c \<in> set ''Egap(*), species''.
        c \<in> set punctuation \<longrightarrow> [c] \<in> set (API_OPERATORS example_config)"
      by (simp add: punctuation_def example_config_def)
    moreover have "remove_in_turn (API_KEYWORDS example_config) (filter isalpha ''Egap(*), species'') = []"
      by (simp add: example_config_def isalpha_def ord_def)
    ultimately show ?thesis using one_pass [of "''Egap(*), species''"] by blast
  qed
  have no_space: "\<not> is_query_valid example_config ''Egap(*),species''"
  proof -
    have "\<not> (\<exists>c \<in> set ''Egap(*),species''. isspace c)"
      by (simp add: isspace_def ord_def)
    then show ?thesis using one_pass [of "''Egap(*),species''"] by blast
  qed
  have bad_operator: "\<not> is_query_valid example_config ''Egap[*] species''"
  proof -
    have "CHR ''['' \<in> set ''Egap[*] species'' \<and> CHR ''['' \<in> set punctuation \<and>
          [CHR ''[''] \<notin> set (API_OPERATORS example_config)"
      by (simp add: punctuation_def example_config_def)
    then have "\<not> (\<forall>c \<in> set ''Egap[*] species''.
        c \<in> set punctuation \<longrightarrow> [c] \<in> set (API_OPERATORS example_config))"
      by blast
    then show ?thesis using one_pass [of "''Egap[*] species''"] by blast
  qed
  have unknown_word: "\<not> is_query_valid example_config ''species(Si) and whatever''"
  proof -
    have "remove_in_turn (API_KEYWORDS example_config) (filter isalpha ''species(Si) and whatever'')
            = ''Siandwhatever''"
      by (simp add: example_config_def isalpha_def ord_def)
    then have "remove_in_turn (API_KEYWORDS example_config) (filter isalpha ''species(Si) and whatever'')
            \<noteq> []"
      by simp
    then show ?thesis using one_pass [of "''species(Si) and whatever''"] by blast
  qed
  have keyword_left: "\<not> is_query_valid example_config ''speEgapcies ''"
  proof -
    have "remove_in_turn (API_KEYWORDS example_config) (filter isalpha ''speEgapcies '') = ''species''"
      by (simp add: example_config_def isalpha_def ord_def)
    then have "remove_in_turn (API_KEYWORDS example_config) (filter isalpha ''speEgapcies '') \<noteq> []"
      by simp
    then show ?thesis using one_pass [of "''speEgapcies ''"] by blast
  qed
  from valid no_space bad_operator unknown_word keyword_left show ?thesis by blast
qed

section \<open>Requests\<close>

text \<open>
  C2. A chunk size below 1, a negative page, or a matchbook that fails validation makes
  \<open>request\<close> raise \<open>ValueError\<close>; the state is the one before the call, so the session has
  sent no GET.
\<close>

theorem request_rejects_invalid_arguments:
  assumes "(\<exists>c. chunk_size = Some c \<and> c < 1) \<or> (\<exists>p. paging = Some p \<and> p < 0) \<or>
           \<not> is_query_valid cfg matchbook"
  shows "request cfg env st matchbook paging chunk_size no_directives = (st, Inl ValueError) \<and>
         gets (fst (request cfg env st matchbook paging chunk_size no_directives)) = gets st"
proof -
  have "request cfg env st matchbook paging chunk_size no_directives = (st, Inl ValueError)"
    using assms by (auto simp add: request_def split: option.splits)
  then show ?thesis by simp
qed

theorem request_rejects_invalid_arguments_witness:
  "request example_config (example_env 200 []) (example_state Map.empty) '' '' None (Some 0) False
     = (example_state Map.empty, Inl ValueError) \<and>
   request example_config (example_env 200 []) (example_state Map.empty) '' '' (Some (- 1)) None False
     = (example_state Map.empty, Inl ValueError) \<and>
   request example_config (example_env 200 []) (example_state Map.empty) ''Egap(*)'' None None False
     = (example_state Map.empty, Inl ValueError)"
proof -
  have "\<not> is_query_valid example_config ''Egap(*)''"
    by (simp add: is_query_valid_def isspace_def ord_def)
  then show ?thesis
    using request_rejects_invalid_arguments
            [of "Some 0" None example_config "'' ''" "example_env 200 []" "example_state Map.empty" False]
          request_rejects_invalid_arguments
            [of None "Some (- 1)" example_config "'' ''" "example_env 200 []" "example_state Map.empty" False]
          request_rejects_invalid_arguments
            [of None None example_config "''Egap(*)''" "example_env 200 []" "example_state Map.empty" False]
    by simp
qed

text \<open>
  C3. For a valid matchbook the URL that is sent is the base URL and the matchbook, followed
  by \<open>$paging(<default>)format(json)\<close> when neither page nor chunk size is given, by
  \<open>$paging(<default>,<chunk_size>)format(json)\<close> when only a chunk size is given (for
  instance \<open>$paging(<default>,5)format(json)\<close>), and by nothing when \<open>no_directives\<close> is set.
\<close>

theorem request_builds_url:
  assumes "is_query_valid cfg matchbook"
  shows "gets (fst (request cfg env st matchbook None None False)) =
           gets st @ [base_url cfg @ matchbook @
                      ''$paging('' @ str_int (DEFAULT_PAGING cfg) @ '')format(json)''] \<and>
         (\<forall>c. 1 \<le> c \<longrightarrow>
            gets (fst (request cfg env st matchbook None (Some c) False)) =
              gets st @ [base_url cfg @ matchbook @
                         ''$paging('' @ str_int (DEFAULT_PAGING cfg) @ '','' @ str_int c @
                         '')format(json)'']) \<and>
         gets (fst (request cfg env st matchbook None (Some 5) False)) =
           gets st @ [base_url cfg @ matchbook @
                      ''$paging('' @ str_int (DEFAULT_PAGING cfg) @ '',5)format(json)''] \<and>
         (\<forall>paging chunk_size.
            (\<forall>p. paging = Some p \<longrightarrow> 0 \<le> p) \<and> (\<forall>c. chunk_size = Some c \<longrightarrow> 1 \<le> c) \<longrightarrow>
            gets (fst (request cfg env st matchbook paging chunk_size True)) =
              gets st @ [base_url cfg @ matchbook])"
proof -
  have unset: "gets (fst (request cfg env st matchbook None None False)) =
           gets st @ [base_url cfg @ matchbook @
                      ''$paging('' @ str_int (DEFAULT_PAGING cfg) @ '')format(json)'']"
    using request_valid [OF assms, of None None env st False]
    by (simp add: request_url_def or_default_def)
  have chunk: "gets (fst (request cfg env st matchbook None (Some c) False)) =
              gets st @ [base_url cfg @ matchbook @
                         ''$paging('' @ str_int (DEFAULT_PAGING cfg) @ '','' @ str_int c @
                         '')format(json)'']" if "1 \<le> c" for c
    using request_valid [OF assms, of "Some c" None env st False] that
    by (simp add: request_url_def or_default_def)
  have five: "gets (fst (request cfg env st matchbook None (Some 5) False)) =
           gets st @ [base_url cfg @ matchbook @
                      ''$paging('' @ str_int (DEFAULT_PAGING cfg) @ '',5)format(json)'']"
    using chunk [of 5] by (simp add: str_int_5)
  have verbatim: "gets (fst (request cfg env st matchbook paging chunk_size True)) =
              gets st @ [base_url cfg @ matchbook]"
    if "\<forall>p. paging = Some p \<longrightarrow> 0 \<le> p" and "\<forall>c. chunk_size = Some c \<longrightarrow> 1 \<le> c"
    for paging chunk_size
  proof -
    have "case chunk_size of None \<Rightarrow> True | Some c \<Rightarrow> 1 \<le> c"
      using that(2) by (simp split: option.split)
    moreover have "case paging of None \<Rightarrow> True | Some p \<Rightarrow> 0 \<le> p"
      using that(1) by (simp split: option.split)
    ultimately show ?thesis
      using request_valid [OF assms, of chunk_size paging env st True]
      by (simp add: request_url_def Let_def)
  qed
  from unset chunk five verbatim show ?thesis by blast
qed

theorem request_builds_url_witness:
  "gets (fst (request example_config (example_env 200 []) (example_state Map.empty)
                '' '' None None False)) =
     [''https://aflow.org/API/aflux/? $paging(0)format(json)''] \<and>
   gets (fst (request example_config (example_env 200 []) (example_state Map.empty)
                '' '' None (Some 5) False)) =
     [''https://aflow.org/API/aflux/? $paging(0,5)format(json)''] \<and>
   gets (fst (request example_config (example_env 200 []) (example_state Map.empty)
                '' '' (Some 3) (Some 5) True)) =
     [''https://aflow.org/API/aflux/? '']"
proof -
  have zero: "str_int 0 = ''0''"
    by (simp add: str_int_def digits10.simps)
  show ?thesis
    using request_builds_url
            [OF is_query_valid_space, of example_config "example_env 200 []" "example_state Map.empty"]
    by (simp add: example_config_def example_state_def base_url_def zero)
qed



section \<open>Help\<close>

text \<open>
  C5. For a keyword, \<open>help\<close> raises \<open>ValueError\<close> when the keyword fails validation;
  when it passes, the lookup of \<open>aflux_request\<close> raises \<open>AttributeError\<close>: no request is made,
  nothing is printed, and the call does not return normally. The general help fails in the
  same way.
\<close>

theorem help_raises_attribute_error:
  "help_op cfg env st (Some k) =
     (st, Inl (if is_query_valid cfg k then AttributeError else ValueError)) \<and>
   help_op cfg env st (Some '' '') = (st, Inl AttributeError) \<and>
   help_op cfg env st None = (st, Inl AttributeError)"
  by (simp add: help_op_def getattr_aflux_request is_query_valid_space)

section \<open>Entries\<close>

text \<open>
  C8. For an entry without the key \<open>aurl\<close>, \<open>get_contcar\<close> and \<open>get_property\<close> raise
  \<open>ValueError\<close>, and the state is the one before the call: no GET has been sent.
\<close>

theorem missing_aurl_raises:
  assumes "heap st e ''aurl'' = None"
  shows "get_contcar env st e = (st, Inl ValueError) \<and>
         get_property env st e property = (st, Inl ValueError)"
  using assms by (simp add: get_contcar_def get_property_def)

theorem missing_aurl_raises_witness:
  "get_contcar (example_env 200 ''text'') (example_state [''species'' \<mapsto> JArr [JStr ''Si'']]) 0
     = (example_state [''species'' \<mapsto> JArr [JStr ''Si'']], Inl ValueError) \<and>
   get_property (example_env 200 ''text'') (example_state [''species'' \<mapsto> JArr [JStr ''Si'']]) 0 ''Egap''
     = (example_state [''species'' \<mapsto> JArr [JStr ''Si'']], Inl ValueError) \<and>
   gets (example_state [''species'' \<mapsto> JArr [JStr ''Si'']]) = []"
proof -
  have "heap (example_state [''species'' \<mapsto> JArr [JStr ''Si'']]) 0 ''aurl'' = None"
    by (simp add: example_state_def)
  then show ?thesis
    using missing_aurl_raises
      [of "example_state [''species'' \<mapsto> JArr [JStr ''Si'']]" 0 "example_env 200 ''text''" "''Egap''"]
    by (simp add: example_state_def)
qed

text \<open>
  C9. No operation of the client changes a dictionary of the caller: after \<open>get_contcar\<close>,
  \<open>get_property\<close>, \<open>request\<close> and \<open>help\<close> the store of entries is the one before the call,
  whether the call returns or raises.
\<close>

theorem entries_unchanged:
  "heap (fst (get_contcar env st e)) = heap st \<and>
   heap (fst (get_property env st e property)) = heap st \<and>
   heap (fst (request cfg env st matchbook paging chunk_size no_directives)) = heap st \<and>
   heap (fst (help_op cfg env st keyword)) = heap st"
  by (simp add: heap_get_contcar heap_get_property heap_request heap_help_op)

theorem entries_unchanged_witness:
  "heap (fst (get_contcar (example_env 404 []) (example_state [''aurl'' \<mapsto> JStr ''a:b'']) 0)) 0
     = [''aurl'' \<mapsto> JStr ''a:b''] \<and>
   heap (fst (get_property (example_env 404 []) (example_state [''aurl'' \<mapsto> JStr ''a:b'']) 0 ''Egap'')) 0
     = [''aurl'' \<mapsto> JStr ''a:b'']"
  using entries_unchanged
    [where env = "example_env 404 []" and st = "example_state [''aurl'' \<mapsto> JStr ''a:b'']"
       and e = 0 and property = "''Egap''"]
  by (simp add: example_state_def)

text \<open>
  C7. For an entry with an \<open>aurl\<close> locator and a response that is not an HTTP error,
  \<open>get_property\<close> returns the stripped response text split at \<open>;\<close>: the pieces, joined by
  \<open>;\<close>, are the stripped text, none of them contains \<open>;\<close>, and none is changed by the inner
  loop. The text \<open>1.0; 2.0;3.0\<close> gives \<open>1.0\<close>, \<open> 2.0\<close> and \<open>3.0\<close>.
\<close>

theorem get_property_splits:
  assumes "heap st e ''aurl'' = Some (JStr a)"
      and "http_get env (''http://'' @ str_replace '':'' ''/'' a @ ''/?'' @ property) = Some r"
      and "status_code r < 400 \<or> 600 \<le> status_code r"
  shows "snd (get_property env st e property) =
           Inr (str_split CHR '';'' (str_strip (response_text r))) \<and>
         (\<exists>parts. snd (get_property env st e property) = Inr parts \<and>
            str_join '';'' parts = str_strip (response_text r) \<and>
            (\<forall>x \<in> set parts. CHR '';'' \<notin> set x)) \<and>
         (response_text r = ''1.0; 2.0;3.0'' \<longrightarrow>
            snd (get_property env st e property) = Inr [''1.0'', '' 2.0'', ''3.0''])"
proof -
  let ?parts = "str_split CHR '';'' (str_strip (response_text r))"
  have res: "snd (get_property env st e property) = Inr ?parts"
    using get_property_ok [OF assms] by simp
  have "str_join '';'' ?parts = str_strip (response_text r)"
    using str_join_split [of "CHR '';''" "str_strip (response_text r)"] by simp
  moreover have "\<forall>x \<in> set ?parts. CHR '';'' \<notin> set x"
    using str_split_no_sep by blast
  moreover have "str_split CHR '';'' (str_strip ''1.0; 2.0;3.0'') = [''1.0'', '' 2.0'', ''3.0'']"
    by (simp add: str_strip_def isspace_def ord_def)
  ultimately show ?thesis using res by simp
qed

theorem get_property_splits_witness:
  "snd (get_property (example_env 200 ''1.0; 2.0;3.0'')
          (example_state [''aurl'' \<mapsto> JStr ''aflowlib.duke.edu:AFLOWDATA/ICSD'']) 0 ''Egap'')
     = Inr [''1.0'', '' 2.0'', ''3.0'']"
proof -
  let ?st = "example_state [''aurl'' \<mapsto> JStr ''aflowlib.duke.edu:AFLOWDATA/ICSD'']"
  let ?env = "example_env 200 ''1.0; 2.0;3.0''"
  have aurl: "heap ?st 0 ''aurl'' = Some (JStr ''aflowlib.duke.edu:AFLOWDATA/ICSD'')"
    by (simp add: example_state_def)
  have get: "http_get ?env (''http://'' @ str_replace '':'' ''/'' ''aflowlib.duke.edu:AFLOWDATA/ICSD''
                             @ ''/?'' @ ''Egap'')
             = Some \<lparr>status_code = 200, response_text = ''1.0; 2.0;3.0''\<rparr>"
    by (simp add: example_env_def)
  have ok: "status_code \<lparr>status_code = 200, response_text = ''1.0; 2.0;3.0''\<rparr> < 400 \<or>
            600 \<le> status_code \<lparr>status_code = 200, response_text = ''1.0; 2.0;3.0''\<rparr>"
    by simp
  have body: "response_text \<lparr>status_code = 200, response_text = ''1.0; 2.0;3.0''\<rparr> = ''1.0; 2.0;3.0''"
    by simp
  show ?thesis
    using get_property_splits [OF aurl get ok] body by blast
qed

text \<open>
  C10. \<open>get_contcar\<close> is partial over response bodies: for a fetched text of fewer than six
  lines, or one whose line 5 is blank, it raises \<open>IndexError\<close>, which is neither the
  invalid-argument error nor the runtime error of a failed transfer or decoding.
\<close>

theorem get_contcar_index_error:
  assumes "heap st e ''aurl'' = Some (JStr a)"
      and "http_get env (''http://'' @ str_replace '':'' ''/'' a @ ''/CONTCAR.relax'') = Some r"
      and "status_code r < 400 \<or> 600 \<le> status_code r"
      and "length (str_split NL (response_text r)) < 6 \<or>
           str_strip (str_split NL (response_text r) ! 5) = []"
  shows "snd (get_contcar env st e) = Inl IndexError \<and>
         IndexError \<noteq> ValueError \<and> IndexError \<noteq> RuntimeError"
  using get_contcar_fetched [OF assms(1,2,3)] assms(4)
  by (auto simp add: Let_def)

theorem get_contcar_index_error_witness:
  "snd (get_contcar (example_env 200 ''Si1 C1'') (example_state [''aurl'' \<mapsto> JStr ''h:p'']) 0)
     = Inl IndexError \<and>
   snd (get_contcar (example_env 200 ''a\<newline>b\<newline>c\<newline>d\<newline>e\<newline>  \<newline>g'')
          (example_state [''aurl'' \<mapsto> JStr ''h:p'']) 0)
     = Inl IndexError"
proof -
  let ?st = "example_state [''aurl'' \<mapsto> JStr ''h:p'']"
  let ?short = "''Si1 C1''"
  let ?blank = "''a\<newline>b\<newline>c\<newline>d\<newline>e\<newline>  \<newline>g''"
  have aurl: "heap ?st 0 ''aurl'' = Some (JStr ''h:p'')"
    by (simp add: example_state_def)
  have get: "http_get (example_env 200 body) (''http://'' @ str_replace '':'' ''/'' ''h:p'' @ ''/CONTCAR.relax'')
               = Some \<lparr>status_code = 200, response_text = body\<rparr>" for body
    by (simp add: example_env_def)
  have ok: "status_code \<lparr>status_code = 200, response_text = body\<rparr> < 400 \<or>
            600 \<le> status_code \<lparr>status_code = 200, response_text = body\<rparr>" for body :: string
    by simp
  have short: "length (str_split NL (response_text \<lparr>status_code = 200, response_text = ?short\<rparr>)) < 6 \<or>
      str_strip (str_split NL (response_text \<lparr>status_code = 200, response_text = ?short\<rparr>) ! 5) = []"
    by (simp add: NL_def)
  have blank: "length (str_split NL (response_text \<lparr>status_code = 200, response_text = ?blank\<rparr>)) < 6 \<or>
      str_strip (str_split NL (response_text \<lparr>status_code = 200, response_text = ?blank\<rparr>) ! 5) = []"
    by (simp add: NL_def str_strip_def isspace_def ord_def)
  show ?thesis
    using get_contcar_index_error [OF aurl get ok short]
          get_contcar_index_error [OF aurl get ok blank]
    by simp
qed

text \<open>
  C6, as stated, fails. A text whose line 5 is blank does not start with a numeric character
  there, and neither does a text of one line; for both \<open>get_contcar\<close> raises \<open>IndexError\<close>
  where the claim has it return the text.
\<close>

theorem get_contcar_blank_line_counterexample:
  "heap (example_state [''aurl'' \<mapsto> JStr ''h:p'', ''species'' \<mapsto> JArr [JStr ''Si'', JStr ''C'']]) 0 ''aurl''
     = Some (JStr ''h:p'') \<and>
   str_strip (str_split NL ''a\<newline>b\<newline>c\<newline>d\<newline>e\<newline>  \<newline>g'' ! 5) = [] \<and>
   snd (get_contcar (example_env 200 ''a\<newline>b\<newline>c\<newline>d\<newline>e\<newline>  \<newline>g'')
          (example_state [''aurl'' \<mapsto> JStr ''h:p'', ''species'' \<mapsto> JArr [JStr ''Si'', JStr ''C'']]) 0)
     = Inl IndexError \<and>
   snd (get_contcar (example_env 200 ''a\<newline>b\<newline>c\<newline>d\<newline>e\<newline>  \<newline>g'')
          (example_state [''aurl'' \<mapsto> JStr ''h:p'', ''species'' \<mapsto> JArr [JStr ''Si'', JStr ''C'']]) 0)
     \<noteq> Inr ''a\<newline>b\<newline>c\<newline>d\<newline>e\<newline>  \<newline>g'' \<and>
   length (str_split NL ''Si1 C1'') = 1 \<and>
   snd (get_contcar (example_env 200 ''Si1 C1'')
          (example_state [''aurl'' \<mapsto> JStr ''h:p'', ''species'' \<mapsto> JArr [JStr ''Si'', JStr ''C'']]) 0)
     = Inl IndexError \<and>
   snd (get_contcar (example_env 200 ''Si1 C1'')
          (example_state [''aurl'' \<mapsto> JStr ''h:p'', ''species'' \<mapsto> JArr [JStr ''Si'', JStr ''C'']]) 0)
     \<noteq> Inr ''Si1 C1''"
  by (simp add: get_contcar_def make_request_def example_env_def example_state_def NL_def
        str_strip_def isspace_def ord_def str_replace.simps)

text \<open>
  C6, amended. For an entry with an \<open>aurl\<close> locator and a fetched text that has a line 5
  which is not blank: if that line, stripped, starts with a numeric character and the entry's
  \<open>species\<close> is a list of strings, \<open>get_contcar\<close> returns the text with one more line at
  index 5, the species joined by spaces; if it starts with any other character,
  \<open>get_contcar\<close> returns the text as fetched.
\<close>

theorem get_contcar_patches_legacy_text:
  assumes "heap st e ''aurl'' = Some (JStr a)"
      and "http_get env (''http://'' @ str_replace '':'' ''/'' a @ ''/CONTCAR.relax'') = Some r"
      and "status_code r < 400 \<or> 600 \<le> status_code r"
      and "poscar_lines = str_split NL (response_text r)"
      and "5 < length poscar_lines"
      and "str_strip (poscar_lines ! 5) \<noteq> []"
  shows "(isnumeric (hd (str_strip (poscar_lines ! 5))) \<longrightarrow>
            (\<forall>species. heap st e ''species'' = Some (JArr (map JStr species)) \<longrightarrow>
               snd (get_contcar env st e) =
                 Inr (str_join [NL]
                        (take 5 poscar_lines @ [str_join '' '' species] @ drop 5 poscar_lines)))) \<and>
         (\<not> isnumeric (hd (str_strip (poscar_lines ! 5))) \<longrightarrow>
            snd (get_contcar env st e) = Inr (response_text r))"
proof -
  have join: "str_join [NL] poscar_lines = response_text r"
    using assms(4) str_join_split [of NL "response_text r"] by simp
  have species: "join_json '' '' (JArr (map JStr species)) = Inr (str_join '' '' species)" for species
    by (simp add: join_json_def strings_of_JStr)
  show ?thesis
    using get_contcar_fetched [OF assms(1,2,3)] assms(4,5,6) join species
    by (auto simp add: Let_def)
qed

theorem get_contcar_patches_legacy_text_witness:
  "snd (get_contcar
          (example_env 200 ''t\<newline>1.0\<newline>a\<newline>b\<newline>c\<newline>1 1\<newline>Direct'')
          (example_state [''aurl'' \<mapsto> JStr ''h:p'', ''species'' \<mapsto> JArr [JStr ''Si'', JStr ''C'']]) 0)
     = Inr ''t\<newline>1.0\<newline>a\<newline>b\<newline>c\<newline>Si C\<newline>1 1\<newline>Direct'' \<and>
   snd (get_contcar
          (example_env 200 ''t\<newline>1.0\<newline>a\<newline>b\<newline>c\<newline>Si C\<newline>1 1\<newline>Direct'')
          (example_state [''aurl'' \<mapsto> JStr ''h:p'', ''species'' \<mapsto> JArr [JStr ''Si'', JStr ''C'']]) 0)
     = Inr ''t\<newline>1.0\<newline>a\<newline>b\<newline>c\<newline>Si C\<newline>1 1\<newline>Direct''"
proof -
  let ?st = "example_state [''aurl'' \<mapsto> JStr ''h:p'', ''species'' \<mapsto> JArr [JStr ''Si'', JStr ''C'']]"
  let ?old = "''t\<newline>1.0\<newline>a\<newline>b\<newline>c\<newline>1 1\<newline>Direct''"
  let ?new = "''t\<newline>1.0\<newline>a\<newline>b\<newline>c\<newline>Si C\<newline>1 1\<newline>Direct''"
  let ?old_lines = "[''t'', ''1.0'', ''a'', ''b'', ''c'', ''1 1'', ''Direct'']"
  let ?new_lines = "[''t'', ''1.0'', ''a'', ''b'', ''c'', ''Si C'', ''1 1'', ''Direct'']"
  have aurl: "heap ?st 0 ''aurl'' = Some (JStr ''h:p'')"
    by (simp add: example_state_def)
  have species: "heap ?st 0 ''species'' = Some (JArr (map JStr [''Si'', ''C'']))"
    by (simp add: example_state_def)
  have get: "http_get (example_env 200 body) (''http://'' @ str_replace '':'' ''/'' ''h:p'' @ ''/CONTCAR.relax'')
               = Some \<lparr>status_code = 200, response_text = body\<rparr>" for body
    by (simp add: example_env_def)
  have ok: "status_code \<lparr>status_code = 200, response_text = body\<rparr> < 400 \<or>
            600 \<le> status_code \<lparr>status_code = 200, response_text = body\<rparr>" for body :: string
    by simp
  have old_lines: "?old_lines = str_split NL (response_text \<lparr>status_code = 200, response_text = ?old\<rparr>)"
    by (simp add: NL_def)
  have new_lines: "?new_lines = str_split NL (response_text \<lparr>status_code = 200, response_text = ?new\<rparr>)"
    by (simp add: NL_def)
  have old_len: "5 < length ?old_lines" and new_len: "5 < length ?new_lines"
    by simp_all
  have old_strip: "str_strip (?old_lines ! 5) = ''1 1''" and new_strip: "str_strip (?new_lines ! 5) = ''Si C''"
    by (simp_all add: str_strip_def isspace_def ord_def)
  have old_ne: "str_strip (?old_lines ! 5) \<noteq> []" and new_ne: "str_strip (?new_lines ! 5) \<noteq> []"
    unfolding old_strip new_strip by simp_all
  have numeric: "isnumeric (hd (str_strip (?old_lines ! 5)))"
    unfolding old_strip by (simp add: isnumeric_def ord_def)
  have letter: "\<not> isnumeric (hd (str_strip (?new_lines ! 5)))"
    unfolding new_strip by (simp add: isnumeric_def ord_def)
  have "snd (get_contcar (example_env 200 ?old) ?st 0) =
          Inr (str_join [NL] (take 5 ?old_lines @ [str_join '' '' [''Si'', ''C'']] @ drop 5 ?old_lines))"
    using get_contcar_patches_legacy_text [OF aurl get ok old_lines old_len old_ne] numeric species
    by blast
  moreover have "snd (get_contcar (example_env 200 ?new) ?st 0) =
          Inr (response_text \<lparr>status_code = 200, response_text = ?new\<rparr>)"
    using get_contcar_patches_legacy_text [OF aurl get ok new_lines new_len new_ne] letter
    by blast
  ultimately show ?thesis by (simp add: NL_def)
qed

end
